theory Spec2Isabelle
  imports Complex_Main "HOL-Library.AList" "HOL-Library.Multiset" "HOL-Library.Sublist"
begin

section \<open>Seat allocation (src/testv2.ts): data model\<close>

text \<open>
  The embedding follows \<^verbatim>\<open>src/testv2.ts\<close>. Conventions:
  \<^item> a TypeScript \<^verbatim>\<open>number\<close> holding an identifier, a score, a group code or a
    remaining capacity is an \<open>int\<close> (the program only stores integers there; NaN and
    fractional scores are outside the model);
  \<^item> a \<^verbatim>\<open>Map\<close> is an association list in insertion order: \<open>map_of\<close> is
    \<^verbatim>\<open>get\<close>, \<open>AList.update\<close> is \<^verbatim>\<open>set\<close>;
  \<^item> \<^verbatim>\<open>Aspirante\<close> objects are shared by reference between the repository, the array
    handed to the batch and its sorted copy, so they live in a store indexed by reference;
  \<^item> a string is a list of 8-bit characters; non-ASCII text is written as its UTF-8 bytes.
\<close>

datatype EstadoCupo = PENDIENTE | ACEPTADO | RECHAZADO

text \<open>Class \<^verbatim>\<open>Aspirante\<close> (with the field inherited from \<^verbatim>\<open>Persona\<close>);
  \<open>ident\<close> is the field \<^verbatim>\<open>_id\<close>.\<close>

record Aspirante =
  nombre :: string
  ident :: int
  puntaje :: int
  carreraDeseada :: string
  grupos :: "int list"
  carreraAsignada :: "string option"
  grupoAsignadoFinal :: "string option"
  estadoCupo :: EstadoCupo

text \<open>Interface \<^verbatim>\<open>ICarrera\<close>; \<open>nombreCarrera\<close> is its field \<^verbatim>\<open>nombre\<close>.\<close>

record ICarrera =
  nombreCarrera :: string
  minPuntaje :: int
  segmentos :: "(int \<times> int) list"

text \<open>
  The running system: the object store, the repository's array of references, the
  service's catalog and observers, and the record of every \<^verbatim>\<open>update\<close> call received
  by an observer (observer, name, status, detail).
\<close>

record Sistema =
  almacen :: "nat \<Rightarrow> Aspirante"
  aspirantes :: "nat list"
  carreras :: "(string \<times> ICarrera) list"
  observadores :: "nat list"
  avisos :: "(nat \<times> string \<times> EstadoCupo \<times> string) list"

section \<open>Strings and numbers of the host language\<close>

text \<open>\<^verbatim>\<open>String.prototype.toUpperCase\<close> on ASCII text; other bytes are left as they are.\<close>

definition upperChar :: "char \<Rightarrow> char" where
  "upperChar c =
     (let n = (of_char c :: int) in if 97 \<le> n \<and> n \<le> 122 then char_of (n - 32) else c)"

definition toUpperCase :: "string \<Rightarrow> string" where
  "toUpperCase s = map upperChar s"

text \<open>Conversion of an integer \<^verbatim>\<open>number\<close> inside a template literal: decimal digits.\<close>

function digitos :: "int \<Rightarrow> string" where
  "digitos n =
     (if n < 10 then [char_of (48 + n)] else digitos (n div 10) @ [char_of (48 + n mod 10)])"
  by pat_completeness auto
termination
  by (relation "measure nat") auto

declare digitos.simps [simp del]

definition numToString :: "int \<Rightarrow> string" where
  "numToString i = (if i < 0 then CHR ''-'' # digitos (- i) else digitos i)"

text \<open>
  \<^verbatim>\<open>Math.floor(cupos * 0.30)\<close> is a product of IEEE 754 binary64 numbers. An integer
  seat count of magnitude below \<open>2 ^ 53\<close> is exact; the literal is the nearest double,
  given as numerator and binary exponent: \<open>0.30\<close> is \<open>5404319552844595 / 2 ^ 54\<close>
  and \<open>0.70\<close> is \<open>3152519739159347 / 2 ^ 52\<close>. The magnitude of the exact product
  is rounded to 53 significant bits, ties to even, and the signed result is floored
  (\<open>div\<close> on \<open>int\<close> rounds down).
\<close>

function bitLength :: "int \<Rightarrow> nat" where
  "bitLength n = (if n \<le> 0 then 0 else Suc (bitLength (n div 2)))"
  by pat_completeness auto
termination
  by (relation "measure nat") auto

declare bitLength.simps [simp del]

definition roundToDouble :: "int \<Rightarrow> int" where
  "roundToDouble N =
     (if N < 2 ^ 53 then N
      else let s = bitLength N - 53; q = N div 2 ^ s; r = N mod 2 ^ s; h = 2 ^ (s - 1)
           in (if h < r \<or> (r = h \<and> odd q) then q + 1 else q) * 2 ^ s)"

definition double_0_30 :: "int \<times> nat" where
  "double_0_30 = (5404319552844595, 54)"

definition double_0_70 :: "int \<times> nat" where
  "double_0_70 = (3152519739159347, 52)"

definition mathFloorMul :: "int \<Rightarrow> int \<times> nat \<Rightarrow> int" where
  "mathFloorMul cupos d =
     (let p = cupos * fst d in (sgn p * roundToDouble \<bar>p\<bar>) div 2 ^ snd d)"

section \<open>Aspirante\<close>

text \<open>The two statements of the constructor that build \<^verbatim>\<open>this.grupos\<close>:
  \<^verbatim>\<open>tieneTitulo ? [7] : [...grupos, 7]\<close>, then the sort with the comparator
  \<^verbatim>\<open>(a, b) => a - b\<close>, which orders the codes ascending.\<close>

definition gruposIniciales :: "int list \<Rightarrow> bool \<Rightarrow> int list" where
  "gruposIniciales gs tieneTitulo = sort (if tieneTitulo then [7] else gs @ [7])"

text \<open>The constructor.\<close>

definition nuevoAspirante ::
  "int \<Rightarrow> string \<Rightarrow> int \<Rightarrow> string \<Rightarrow> int list \<Rightarrow> bool \<Rightarrow> Aspirante" where
  "nuevoAspirante i n p c gs tieneTitulo =
     \<lparr> nombre = n, ident = i, puntaje = p, carreraDeseada = c,
       grupos = gruposIniciales gs tieneTitulo,
       carreraAsignada = None, grupoAsignadoFinal = None, estadoCupo = PENDIENTE \<rparr>"

section \<open>CupoValidatorAdapter\<close>

text \<open>\<^verbatim>\<open>segmentos.get(grupoId) || 0\<close>: a missing key counts as no seat.\<close>

definition disponibles :: "ICarrera \<Rightarrow> int \<Rightarrow> int" where
  "disponibles carrera grupoId =
     (case map_of (segmentos carrera) grupoId of None \<Rightarrow> 0 | Some v \<Rightarrow> v)"

definition puedeAcceder :: "ICarrera \<Rightarrow> int \<Rightarrow> bool" where
  "puedeAcceder carrera grupoId = (0 < disponibles carrera grupoId)"

section \<open>AsignacionService\<close>

text \<open>\<^verbatim>\<open>configurarCarrera\<close>; the optional third parameter defaults to 70.\<close>

definition configurarCarrera ::
  "string \<Rightarrow> int \<Rightarrow> int option \<Rightarrow> (string \<times> ICarrera) list \<Rightarrow> (string \<times> ICarrera) list" where
  "configurarCarrera n cupos mn cs =
     (let s0 = AList.update 3 (mathFloorMul cupos double_0_30) [];
          s1 = AList.update 7 (mathFloorMul cupos double_0_70) s0
      in AList.update (toUpperCase n)
           \<lparr> nombreCarrera = n, minPuntaje = (case mn of None \<Rightarrow> 70 | Some m \<Rightarrow> m),
             segmentos = s1 \<rparr> cs)"

text \<open>The catalog built by the constructor of \<^verbatim>\<open>AsignacionService\<close>.\<close>

definition carrerasIniciales :: "(string \<times> ICarrera) list" where
  "carrerasIniciales =
     configurarCarrera ''INGENIERIA'' 15 (Some 80)
       (configurarCarrera ''MEDICINA'' 10 (Some 90) [])"

text \<open>The system right after \<^verbatim>\<open>new AsignacionService()\<close>, for the objects \<open>h\<close> of the store
  and the references \<open>rs\<close> registered in the repository: no observer yet.\<close>

definition nuevoServicio :: "(nat \<Rightarrow> Aspirante) \<Rightarrow> nat list \<Rightarrow> Sistema" where
  "nuevoServicio h rs =
     \<lparr> almacen = h, aspirantes = rs, carreras = carrerasIniciales,
       observadores = [], avisos = [] \<rparr>"

definition agregarObservador :: "nat \<Rightarrow> Sistema \<Rightarrow> Sistema" where
  "agregarObservador ob st = st\<lparr> observadores := observadores st @ [ob] \<rparr>"

text \<open>The body of the \<^verbatim>\<open>if\<close> inside the loop over the groups: one seat of the
  category is taken and the candidate is accepted under it.\<close>

definition asignarCupo :: "ICarrera \<Rightarrow> Aspirante \<Rightarrow> int \<Rightarrow> ICarrera \<times> Aspirante" where
  "asignarCupo carrera asp grupoId =
     (let actual = disponibles carrera grupoId
      in (carrera\<lparr> segmentos := AList.update grupoId (actual - 1) (segmentos carrera) \<rparr>,
          asp\<lparr> estadoCupo := ACEPTADO,
               carreraAsignada := Some (nombreCarrera carrera),
               grupoAsignadoFinal := Some (''Segmento-'' @ numToString grupoId) \<rparr>))"

text \<open>\<^verbatim>\<open>for (const grupoId of asp.grupos)\<close> with its \<^verbatim>\<open>break\<close>.\<close>

fun recorrerGrupos :: "ICarrera \<Rightarrow> Aspirante \<Rightarrow> int list \<Rightarrow> ICarrera \<times> Aspirante" where
  "recorrerGrupos carrera asp [] = (carrera, asp)"
| "recorrerGrupos carrera asp (grupoId # gs) =
     (if puedeAcceder carrera grupoId then asignarCupo carrera asp grupoId
      else recorrerGrupos carrera asp gs)"

text \<open>The callback of \<^verbatim>\<open>ordenados.forEach\<close>, applied to the object at reference \<open>r\<close>.\<close>

definition procesar :: "Sistema \<Rightarrow> nat \<Rightarrow> Sistema" where
  "procesar st r =
     (let asp = almacen st r; clave = toUpperCase (carreraDeseada asp)
      in case map_of (carreras st) clave of
           None \<Rightarrow> st\<lparr> almacen := (almacen st)(r := asp\<lparr> estadoCupo := RECHAZADO \<rparr>) \<rparr>
         | Some carrera \<Rightarrow>
             if puntaje asp < minPuntaje carrera
             then st\<lparr> almacen := (almacen st)(r := asp\<lparr> estadoCupo := RECHAZADO \<rparr>) \<rparr>
             else
               (let (carrera', asp') = recorrerGrupos carrera asp (grupos asp);
                    asp'' = (if estadoCupo asp' = PENDIENTE
                             then asp'\<lparr> estadoCupo := RECHAZADO \<rparr> else asp')
                in st\<lparr> almacen := (almacen st)(r := asp''),
                       carreras := AList.update clave carrera' (carreras st) \<rparr>))"

text \<open>\<^verbatim>\<open>[...aspirantes].sort((a, b) => b.puntaje - a.puntaje)\<close>: the sort of an array
  is stable (ECMAScript 2019), so the ranking is the stable sort by descending score.\<close>

definition ordenados :: "(nat \<Rightarrow> Aspirante) \<Rightarrow> nat list \<Rightarrow> nat list" where
  "ordenados h rs = sort_key (\<lambda>r. - puntaje (h r)) rs"

definition ejecutarAsignacionAutomatica :: "Sistema \<Rightarrow> nat list \<Rightarrow> Sistema" where
  "ejecutarAsignacionAutomatica st rs = foldl procesar st (ordenados (almacen st) rs)"

definition notificar :: "Sistema \<Rightarrow> Aspirante \<Rightarrow> string \<Rightarrow> Sistema" where
  "notificar st asp detalle =
     st\<lparr> avisos := avisos st @
            map (\<lambda>ob. (ob, nombre asp, estadoCupo asp, detalle)) (observadores st) \<rparr>"

definition detalleConfirmada :: string where
  "detalleConfirmada = ''Asignaci'' @ [CHR 0xC3, CHR 0xB3] @ ''n manual confirmada''"

text \<open>\<^verbatim>\<open>modificarManualmente\<close>; the repository searched is the one of the system.\<close>

definition modificarManualmente :: "Sistema \<Rightarrow> int \<Rightarrow> EstadoCupo \<Rightarrow> string \<times> Sistema" where
  "modificarManualmente st i nuevoEstado =
     (case List.find (\<lambda>r. ident (almacen st r) = i) (aspirantes st) of
        None \<Rightarrow> (''ID no encontrado.'', st)
      | Some r \<Rightarrow>
          (let asp = almacen st r
           in case map_of (carreras st) (toUpperCase (carreraDeseada asp)) of
                Some carrera \<Rightarrow>
                  if nuevoEstado = ACEPTADO
                  then
                    (let asp' = asp\<lparr> estadoCupo := ACEPTADO,
                                     carreraAsignada := Some (nombreCarrera carrera),
                                     grupoAsignadoFinal := Some ''ADMIN_FORZADO'' \<rparr>
                     in (''Estado: ACEPTADO.'',
                         notificar (st\<lparr> almacen := (almacen st)(r := asp') \<rparr>) asp'
                           detalleConfirmada))
                  else
                    (let asp' = asp\<lparr> estadoCupo := nuevoEstado \<rparr>
                     in (''Estado actualizado.'',
                         notificar (st\<lparr> almacen := (almacen st)(r := asp') \<rparr>) asp'
                           ''Cambio manual realizado''))
              | None \<Rightarrow>
                  (let asp' = asp\<lparr> estadoCupo := nuevoEstado \<rparr>
                   in (''Estado actualizado.'',
                       notificar (st\<lparr> almacen := (almacen st)(r := asp') \<rparr>) asp'
                         ''Cambio manual realizado''))))"

text \<open>Calls on the service, and their execution in sequence.\<close>

datatype Llamada = Automatica "nat list" | Manual int EstadoCupo

fun ejecutar :: "Sistema \<Rightarrow> Llamada \<Rightarrow> Sistema" where
  "ejecutar st (Automatica rs) = ejecutarAsignacionAutomatica st rs"
| "ejecutar st (Manual i e) = snd (modificarManualmente st i e)"

definition ejecutarLlamadas :: "Sistema \<Rightarrow> Llamada list \<Rightarrow> Sistema" where
  "ejecutarLlamadas st ls = foldl ejecutar st ls"

section \<open>The other version of the service (src/unnamed/part_000)\<close>

text \<open>
  The repository holds a second version of the program, with one seat counter per
  program and no groups. Its classes \<^verbatim>\<open>Aspirante\<close> and \<^verbatim>\<open>ICarrera\<close> get the suffix
  \<open>V1\<close> here, as do their fields.
\<close>

record AspiranteV1 =
  nombreV1 :: string
  apellidoV1 :: string
  cedulaV1 :: string
  puntajeV1 :: int
  carreraDeseadaV1 :: string
  carreraAsignadaV1 :: "string option"
  estadoCupoV1 :: EstadoCupo

record ICarreraV1 =
  nombreCarreraV1 :: string
  cuposV1 :: int
  minPuntajeV1 :: int

text \<open>
  \<^verbatim>\<open>ValidadorAdapter.validar\<close> (its console output is not modelled).
\<close>

definition validar :: "AspiranteV1 \<Rightarrow> ICarreraV1 \<Rightarrow> bool" where
  "validar aspirante carrera =
     (if puntajeV1 aspirante < minPuntajeV1 carrera then False
      else if cuposV1 carrera \<le> 0 then False
      else True)"

text \<open>
  \<^verbatim>\<open>AsignacionService.procesarEstado\<close> on a catalog \<open>cs\<close>; the optional program name
  is absent or empty when it is falsy.
\<close>

definition procesarEstado ::
  "(string \<times> ICarreraV1) list \<Rightarrow> AspiranteV1 \<Rightarrow> EstadoCupo \<Rightarrow> string option \<Rightarrow>
   (string \<times> ICarreraV1) list \<times> AspiranteV1" where
  "procesarEstado cs aspirante nuevoEstado nc =
     (if nuevoEstado = ACEPTADO \<and> nc \<noteq> None \<and> nc \<noteq> Some []
      then
        (case map_of cs (toUpperCase (case nc of Some n \<Rightarrow> n | None \<Rightarrow> [])) of
           None \<Rightarrow> (cs, aspirante)
         | Some carrera \<Rightarrow>
             if validar aspirante carrera
             then (AList.update (toUpperCase (case nc of Some n \<Rightarrow> n | None \<Rightarrow> []))
                     (carrera\<lparr> cuposV1 := cuposV1 carrera - 1 \<rparr>) cs,
                   aspirante\<lparr> carreraAsignadaV1 := Some (nombreCarreraV1 carrera),
                              estadoCupoV1 := ACEPTADO \<rparr>)
             else (cs, aspirante))
      else (cs, aspirante\<lparr> estadoCupoV1 := nuevoEstado, carreraAsignadaV1 := None \<rparr>))"

section \<open>Predicates and sample data used by the statements\<close>

text \<open>Every entry of the \<^verbatim>\<open>segmentos\<close> map of every program is at least 0.\<close>

definition cuposNoNegativos :: "(string \<times> ICarrera) list \<Rightarrow> bool" where
  "cuposNoNegativos cs = list_all (\<lambda>(k, c). list_all (\<lambda>(g, v). 0 \<le> v) (segmentos c)) cs"

text \<open>Three of the candidates registered by \<^verbatim>\<open>main\<close>, at references 0, 1 and 2 (every
  other reference holds a copy of the third), and a service with one observer.\<close>

definition almacenEjemplo :: "nat \<Rightarrow> Aspirante" where
  "almacenEjemplo =
     (\<lambda>_. nuevoAspirante 4 ''Jose Zambrano'' 70 ''INGENIERIA'' [] False)
       (0 := nuevoAspirante 1 ''Ana Garcia'' 98 ''MEDICINA'' [3] False,
        Suc 0 := nuevoAspirante 5 ''Kevin Meza'' 95 ''MEDICINA'' [1] False)"

definition sistemaEjemplo :: Sistema where
  "sistemaEjemplo = agregarObservador 0 (nuevoServicio almacenEjemplo [0, Suc 0, 2])"

text \<open>
  The condition under which the batch rejects a candidate at once:
  \<^verbatim>\<open>!carrera || asp.puntaje < carrera.minPuntaje\<close>.
\<close>

definition rechazoDirecto :: "(string \<times> ICarrera) list \<Rightarrow> Aspirante \<Rightarrow> bool" where
  "rechazoDirecto cs asp =
     (case map_of cs (toUpperCase (carreraDeseada asp)) of
        None \<Rightarrow> True
      | Some carrera \<Rightarrow> puntaje asp < minPuntaje carrera)"

text \<open>
  Every key of every \<^verbatim>\<open>segmentos\<close> map is 3 (merit) or 7 (general).
\<close>

definition soloMeritoYGeneral :: "(string \<times> ICarrera) list \<Rightarrow> bool" where
  "soloMeritoYGeneral cs =
     list_all (\<lambda>(k, c). list_all (\<lambda>(g, v). g = 3 \<or> g = 7) (segmentos c)) cs"

text \<open>
  Four candidates with the same score and the merit group, registered in the order of
  their references 0 to 3, and a fifth with a higher score at reference 4.
\<close>

definition almacenEmpate :: "nat \<Rightarrow> Aspirante" where
  "almacenEmpate =
     (\<lambda>_. nuevoAspirante 24 ''Cuarto'' 95 ''MEDICINA'' [3] False)
       (0 := nuevoAspirante 21 ''Primero'' 95 ''MEDICINA'' [3] False,
        Suc 0 := nuevoAspirante 22 ''Segundo'' 95 ''MEDICINA'' [3] False,
        2 := nuevoAspirante 23 ''Tercero'' 95 ''MEDICINA'' [3] False,
        4 := nuevoAspirante 25 ''Mejor'' 99 ''MEDICINA'' [] False)"

section \<open>The catalog and its capacities\<close>

lemma carrerasIniciales_eq:
  "carrerasIniciales =
     [(''MEDICINA'', \<lparr>nombreCarrera = ''MEDICINA'', minPuntaje = 90, segmentos = [(3, 3), (7, 7)]\<rparr>),
      (''INGENIERIA'', \<lparr>nombreCarrera = ''INGENIERIA'', minPuntaje = 80, segmentos = [(3, 4), (7, 10)]\<rparr>)]"
  by code_simp

lemma list_all_update:
  "P (k, v) \<Longrightarrow> list_all P al \<Longrightarrow> list_all P (AList.update k v al)"
  by (induction al) auto

lemma recorrerGrupos_find:
  "recorrerGrupos c a gs =
     (case List.find (puedeAcceder c) gs of None \<Rightarrow> (c, a) | Some g \<Rightarrow> asignarCupo c a g)"
  by (induction gs) auto

lemma segmentos_recorrer:
  assumes "list_all (\<lambda>(g, v). 0 \<le> v) (segmentos c)"
  shows "list_all (\<lambda>(g, v). 0 \<le> v) (segmentos (fst (recorrerGrupos c a gs)))"
proof (cases "List.find (puedeAcceder c) gs")
  case None
  then show ?thesis using assms by (simp add: recorrerGrupos_find)
next
  case (Some g)
  then have "puedeAcceder c g" by (auto simp: find_Some_iff)
  then have "0 \<le> disponibles c g - 1" by (simp add: puedeAcceder_def)
  then have "list_all (\<lambda>(g, v). 0 \<le> v)
      (AList.update g (disponibles c g - 1) (segmentos c))"
    using assms by (intro list_all_update) simp_all
  then show ?thesis using Some
    by (simp add: recorrerGrupos_find asignarCupo_def)
qed

lemma carreras_procesar:
  "carreras (procesar st r) =
     (let asp = almacen st r; clave = toUpperCase (carreraDeseada asp)
      in case map_of (carreras st) clave of
           None \<Rightarrow> carreras st
         | Some c \<Rightarrow> if puntaje asp < minPuntaje c then carreras st
                     else AList.update clave (fst (recorrerGrupos c asp (grupos asp))) (carreras st))"
  by (simp add: procesar_def Let_def split: option.splits prod.splits)

lemma cuposNoNegativos_procesar:
  assumes "cuposNoNegativos (carreras st)"
  shows "cuposNoNegativos (carreras (procesar st r))"
proof -
  let ?asp = "almacen st r"
  let ?k = "toUpperCase (carreraDeseada ?asp)"
  show ?thesis
  proof (cases "map_of (carreras st) ?k")
    case None
    then show ?thesis using assms by (simp add: carreras_procesar Let_def)
  next
    case (Some c)
    then have "(?k, c) \<in> set (carreras st)" by (rule map_of_SomeD)
    with assms have c: "list_all (\<lambda>(g, v). 0 \<le> v) (segmentos c)"
      by (auto simp: cuposNoNegativos_def list_all_iff)
    let ?c' = "fst (recorrerGrupos c ?asp (grupos ?asp))"
    have "list_all (\<lambda>(g, v). 0 \<le> v) (segmentos ?c')"
      using c by (rule segmentos_recorrer)
    then have "cuposNoNegativos (AList.update ?k ?c' (carreras st))"
      using assms unfolding cuposNoNegativos_def by (intro list_all_update) simp_all
    then show ?thesis using Some assms by (simp add: carreras_procesar Let_def)
  qed
qed

lemma foldl_invariante:
  assumes "P st" and "\<And>s x. P s \<Longrightarrow> P (f s x)"
  shows "P (foldl f st xs)"
  using assms(1) by (induction xs arbitrary: st) (auto intro: assms(2))

lemma carreras_modificarManualmente:
  "carreras (snd (modificarManualmente st i e)) = carreras st"
  by (simp add: modificarManualmente_def notificar_def Let_def split: option.splits)

lemma cuposNoNegativos_ejecutar:
  "cuposNoNegativos (carreras st) \<Longrightarrow> cuposNoNegativos (carreras (ejecutar st l))"
proof (cases l)
  case (Automatica rs)
  assume "cuposNoNegativos (carreras st)"
  then have "cuposNoNegativos (carreras (foldl procesar st (ordenados (almacen st) rs)))"
    by (rule foldl_invariante [where P = "\<lambda>s. cuposNoNegativos (carreras s)"])
       (rule cuposNoNegativos_procesar)
  then show ?thesis using Automatica by (simp add: ejecutarAsignacionAutomatica_def)
next
  case (Manual i e)
  assume "cuposNoNegativos (carreras st)"
  then show ?thesis using Manual by (simp add: carreras_modificarManualmente)
qed

text \<open>
  Claim C1. The remaining capacity is never negative: the catalog built by the constructor
  has no negative entry, and from any catalog without a negative entry every sequence of
  automatic batches and manual changes leads to a catalog without a negative entry.
\<close>

theorem capacidad_nunca_negativa:
  "cuposNoNegativos carrerasIniciales \<and>
   (cuposNoNegativos (carreras st) \<longrightarrow> cuposNoNegativos (carreras (ejecutarLlamadas st ls)))"
proof
  show "cuposNoNegativos carrerasIniciales"
    by (simp add: carrerasIniciales_eq cuposNoNegativos_def)
  show "cuposNoNegativos (carreras st) \<longrightarrow> cuposNoNegativos (carreras (ejecutarLlamadas st ls))"
    unfolding ejecutarLlamadas_def
    by (auto intro: foldl_invariante [where P = "\<lambda>s. cuposNoNegativos (carreras s)"]
         cuposNoNegativos_ejecutar)
qed

theorem capacidad_nunca_negativa_witness:
  "cuposNoNegativos (carreras sistemaEjemplo) \<and>
   cuposNoNegativos (carreras (ejecutarLlamadas sistemaEjemplo
      [Automatica [0, Suc 0, 2], Manual 1 RECHAZADO, Automatica [0, Suc 0, 2]]))"
proof -
  have h: "cuposNoNegativos (carreras sistemaEjemplo)"
    by (simp add: sistemaEjemplo_def agregarObservador_def nuevoServicio_def
          carrerasIniciales_eq cuposNoNegativos_def)
  show ?thesis
    using h capacidad_nunca_negativa [of sistemaEjemplo
        "[Automatica [0, Suc 0, 2], Manual 1 RECHAZADO, Automatica [0, Suc 0, 2]]"]
    by simp
qed

section \<open>Facts about the sample system\<close>

lemma aspirantes_sistemaEjemplo: "aspirantes sistemaEjemplo = [0, Suc 0, 2]"
  by (simp add: sistemaEjemplo_def agregarObservador_def nuevoServicio_def)

lemma almacen_sistemaEjemplo: "almacen sistemaEjemplo = almacenEjemplo"
  by (simp add: sistemaEjemplo_def agregarObservador_def nuevoServicio_def)

lemma carreras_sistemaEjemplo: "carreras sistemaEjemplo = carrerasIniciales"
  by (simp add: sistemaEjemplo_def agregarObservador_def nuevoServicio_def)

lemma buscar_id_4: "List.find (\<lambda>r. ident (almacen sistemaEjemplo r) = 4) (aspirantes sistemaEjemplo) = Some 2"
  by (simp add: aspirantes_sistemaEjemplo almacen_sistemaEjemplo almacenEjemplo_def
          nuevoAspirante_def)

lemma carrera_de_id_4: "map_of (carreras sistemaEjemplo) (toUpperCase (carreraDeseada (almacen sistemaEjemplo 2)))
   = Some \<lparr>nombreCarrera = ''INGENIERIA'', minPuntaje = 80, segmentos = [(3, 4), (7, 10)]\<rparr>"
  by (simp add: carreras_sistemaEjemplo almacen_sistemaEjemplo almacenEjemplo_def
          nuevoAspirante_def carrerasIniciales_eq toUpperCase_def upperChar_def)

section \<open>Manual change of status\<close>

lemma find_ninguno:
  "(\<forall>r\<in>set rs. \<not> P r) \<Longrightarrow> List.find P rs = None"
  by (simp add: find_None_iff)

text \<open>
  Claim C7. When no registered candidate has the given id, \<^verbatim>\<open>modificarManualmente\<close>
  returns the message \<^verbatim>\<open>ID no encontrado.\<close> and the whole system is unchanged: no
  candidate field, no capacity and no observer notification.
\<close>

theorem id_desconocido_sin_efecto:
  "\<forall>r\<in>set (aspirantes st). ident (almacen st r) \<noteq> i \<Longrightarrow>
   modificarManualmente st i e = (''ID no encontrado.'', st)"
  by (simp add: modificarManualmente_def find_ninguno)

theorem id_desconocido_sin_efecto_witness:
  "map (\<lambda>r. ident (almacen sistemaEjemplo r)) (aspirantes sistemaEjemplo) = [1, 5, 4] \<and>
   modificarManualmente sistemaEjemplo 99 RECHAZADO = (''ID no encontrado.'', sistemaEjemplo)"
proof -
  have ids: "map (\<lambda>r. ident (almacen sistemaEjemplo r)) (aspirantes sistemaEjemplo) = [1, 5, 4]"
    by (simp add: aspirantes_sistemaEjemplo almacen_sistemaEjemplo almacenEjemplo_def
          nuevoAspirante_def)
  have h: "\<forall>r\<in>set (aspirantes sistemaEjemplo). ident (almacen sistemaEjemplo r) \<noteq> 99"
    by (simp add: aspirantes_sistemaEjemplo almacen_sistemaEjemplo almacenEjemplo_def
          nuevoAspirante_def)
  show ?thesis using ids id_desconocido_sin_efecto [OF h, of RECHAZADO] by simp
qed

text \<open>
  Claim C6. A manual change to ACEPTADO leaves the catalog, and so every remaining
  capacity, exactly as it was, for every id and every state; when the candidate is
  registered and the desired program exists, the candidate becomes ACEPTADO, is assigned
  the program's name and gets the label \<^verbatim>\<open>ADMIN_FORZADO\<close>.
\<close>

theorem aceptacion_manual_no_consume:
  "carreras (snd (modificarManualmente st i ACEPTADO)) = carreras st \<and>
   (\<forall>r c. List.find (\<lambda>r. ident (almacen st r) = i) (aspirantes st) = Some r \<and>
          map_of (carreras st) (toUpperCase (carreraDeseada (almacen st r))) = Some c \<longrightarrow>
          fst (modificarManualmente st i ACEPTADO) = ''Estado: ACEPTADO.'' \<and>
          estadoCupo (almacen (snd (modificarManualmente st i ACEPTADO)) r) = ACEPTADO \<and>
          carreraAsignada (almacen (snd (modificarManualmente st i ACEPTADO)) r)
            = Some (nombreCarrera c) \<and>
          grupoAsignadoFinal (almacen (snd (modificarManualmente st i ACEPTADO)) r)
            = Some ''ADMIN_FORZADO'')"
  by (simp add: modificarManualmente_def notificar_def Let_def split: option.splits)

theorem aceptacion_manual_no_consume_witness:
  "carreras (snd (modificarManualmente sistemaEjemplo 4 ACEPTADO)) = carreras sistemaEjemplo \<and>
   List.find (\<lambda>r. ident (almacen sistemaEjemplo r) = 4) (aspirantes sistemaEjemplo) = Some 2 \<and>
   grupoAsignadoFinal (almacen (snd (modificarManualmente sistemaEjemplo 4 ACEPTADO)) 2)
     = Some ''ADMIN_FORZADO''"
  using aceptacion_manual_no_consume [of sistemaEjemplo 4] buscar_id_4 carrera_de_id_4 by simp

text \<open>
  What the manual change to a status other than ACEPTADO does to a registered candidate:
  only the status is written. The other version of the service clears the assigned program
  in the same case.
\<close>

lemma modificarManualmente_conserva:
  assumes "List.find (\<lambda>r. ident (almacen st r) = i) (aspirantes st) = Some r"
    and "nuevoEstado \<noteq> ACEPTADO"
  shows "fst (modificarManualmente st i nuevoEstado) = ''Estado actualizado.'' \<and>
         almacen (snd (modificarManualmente st i nuevoEstado)) =
           (almacen st)(r := (almacen st r)\<lparr> estadoCupo := nuevoEstado \<rparr>)"
  using assms
  by (simp add: modificarManualmente_def notificar_def Let_def split: option.splits)

lemma procesarEstado_limpia:
  "nuevoEstado \<noteq> ACEPTADO \<Longrightarrow>
   procesarEstado cs a nuevoEstado n = (cs, a\<lparr> estadoCupoV1 := nuevoEstado, carreraAsignadaV1 := None \<rparr>)"
  by (simp add: procesarEstado_def)

text \<open>
  Claim C5, evaluated on the code. After the batch has accepted candidate 1 for MEDICINA
  under category 3, the manual change of candidate 1 to RECHAZADO sets the status only:
  the assigned program and the assigned label keep their values instead of becoming null.
\<close>

theorem rechazo_manual_conserva_asignacion:
  "fst (modificarManualmente (ejecutarAsignacionAutomatica sistemaEjemplo [0, Suc 0, 2]) 1 RECHAZADO)
     = ''Estado actualizado.'' \<and>
   estadoCupo (almacen (snd (modificarManualmente
       (ejecutarAsignacionAutomatica sistemaEjemplo [0, Suc 0, 2]) 1 RECHAZADO)) 0) = RECHAZADO \<and>
   carreraAsignada (almacen (snd (modificarManualmente
       (ejecutarAsignacionAutomatica sistemaEjemplo [0, Suc 0, 2]) 1 RECHAZADO)) 0)
     = Some ''MEDICINA'' \<and>
   grupoAsignadoFinal (almacen (snd (modificarManualmente
       (ejecutarAsignacionAutomatica sistemaEjemplo [0, Suc 0, 2]) 1 RECHAZADO)) 0)
     = Some ''Segmento-3''"
  by code_simp

text \<open>
  Claim C2, evaluated on the code. Candidate 1 starts PENDIENTE without an assigned
  program, is accepted by the batch and is then manually set to RECHAZADO: the status is
  RECHAZADO while the assigned program is still non-null.
\<close>

theorem rechazado_con_carrera_asignada:
  "estadoCupo (almacen sistemaEjemplo 0) = PENDIENTE \<and>
   carreraAsignada (almacen sistemaEjemplo 0) = None \<and>
   estadoCupo (almacen (ejecutarLlamadas sistemaEjemplo
       [Automatica [0, Suc 0, 2], Manual 1 RECHAZADO]) 0) = RECHAZADO \<and>
   carreraAsignada (almacen (ejecutarLlamadas sistemaEjemplo
       [Automatica [0, Suc 0, 2], Manual 1 RECHAZADO]) 0) = Some ''MEDICINA''"
  by code_simp

section \<open>Configuration of a program\<close>

lemma configurarCarrera_entradas:
  "map_of (configurarCarrera n cupos mn cs) (toUpperCase n) =
     Some \<lparr> nombreCarrera = n, minPuntaje = (case mn of None \<Rightarrow> 70 | Some m \<Rightarrow> m),
            segmentos = [(3, mathFloorMul cupos double_0_30),
                         (7, mathFloorMul cupos double_0_70)] \<rparr>"
  by (simp add: configurarCarrera_def AList.update_conv')

text \<open>
  Below 90 seats both stored capacities are the exact floors of 30 and 70 percent.
\<close>

lemma mathFloorMul_exacto_hasta_89:
  "list_all (\<lambda>n. mathFloorMul n double_0_30 = (3 * n) div 10 \<and>
                  mathFloorMul n double_0_70 = (7 * n) div 10) (map int [0..<90])"
  by code_simp

text \<open>
  Claim C9, evaluated on the code. Configuring a program with 90 seats stores 27 merit
  seats and 62 general seats: the double nearest to 0.70 lies below 0.70, the exact product
  with 90 is rounded to the double just below 63 (\<open>63 - 32 / 2 ^ 52\<close>, printed as
  62.99999999999999), and its floor is 62; the floor of 70 percent of 90 is 63.
\<close>

theorem cupo_general_de_90:
  "map_of (configurarCarrera ''DERECHO'' 90 None []) ''DERECHO'' =
     Some \<lparr>nombreCarrera = ''DERECHO'', minPuntaje = 70, segmentos = [(3, 27), (7, 62)]\<rparr> \<and>
   roundToDouble (90 * fst double_0_70) = 63 * 2 ^ snd double_0_70 - 32 \<and>
   mathFloorMul 90 double_0_70 = 62 \<and>
   \<lfloor>(0.30::real) * 90\<rfloor> = 27 \<and> \<lfloor>(0.70::real) * 90\<rfloor> = 63"
proof -
  have "map_of (configurarCarrera ''DERECHO'' 90 None []) ''DERECHO'' =
     Some \<lparr>nombreCarrera = ''DERECHO'', minPuntaje = 70, segmentos = [(3, 27), (7, 62)]\<rparr>"
    by code_simp
  moreover have "roundToDouble (90 * fst double_0_70) = 63 * 2 ^ snd double_0_70 - 32"
    by code_simp
  moreover have "mathFloorMul 90 double_0_70 = 62"
    by code_simp
  ultimately show ?thesis by simp
qed

section \<open>Category codes of a candidate\<close>

lemma find_menor:
  "sorted xs \<Longrightarrow> g \<in> set xs \<Longrightarrow> P g \<Longrightarrow> (\<forall>g'\<in>set xs. g' < g \<longrightarrow> \<not> P g') \<Longrightarrow>
   List.find P xs = Some (g::int)"
proof (induction xs)
  case Nil
  then show ?case by simp
next
  case (Cons x xs)
  show ?case
  proof (cases "P x")
    case True
    with Cons.prems have "x = g" by force
    with True show ?thesis by simp
  next
    case False
    with Cons.prems have "g \<in> set xs" by auto
    with Cons False show ?thesis by simp
  qed
qed

lemma menor_que_ultimo: "sorted xs \<Longrightarrow> x \<in> set xs \<Longrightarrow> x \<le> last (xs::int list)"
  by (induction xs) auto

lemma last_ordenada:
  assumes "sorted xs" and "m \<in> set xs"
  shows "last xs = m \<longleftrightarrow> (\<forall>x\<in>set xs. x \<le> (m::int))"
proof
  assume "last xs = m"
  then show "\<forall>x\<in>set xs. x \<le> m" using assms(1) menor_que_ultimo by blast
next
  assume a: "\<forall>x\<in>set xs. x \<le> m"
  from assms(2) have "xs \<noteq> []" by auto
  then have "last xs \<in> set xs" by simp
  with a have "last xs \<le> m" by blast
  moreover have "m \<le> last xs" using assms by (rule menor_que_ultimo)
  ultimately show "last xs = m" by simp
qed

text \<open>
  Claim C8, as amended. The codes built by the constructor are the given codes plus 7,
  sorted ascending; with \<^verbatim>\<open>tieneTitulo\<close> they are exactly [7]. They are free of
  duplicates exactly when the given codes are distinct and do not contain 7, and 7 is the
  last code exactly when no given code exceeds 7. The allocation loop takes the seat of
  the smallest code of the list that has capacity, and changes nothing when none has.
\<close>

theorem grupos_del_constructor:
  "grupos (nuevoAspirante i n p c gs t) = gruposIniciales gs t \<and>
   sorted (gruposIniciales gs t) \<and> 7 \<in> set (gruposIniciales gs t) \<and>
   (t \<longrightarrow> gruposIniciales gs t = [7]) \<and>
   mset (gruposIniciales gs t) = (if t then {#7#} else add_mset 7 (mset gs)) \<and>
   (distinct (gruposIniciales gs t) \<longleftrightarrow> t \<or> (distinct gs \<and> 7 \<notin> set gs)) \<and>
   (last (gruposIniciales gs t) = 7 \<longleftrightarrow> t \<or> (\<forall>g\<in>set gs. g \<le> 7)) \<and>
   (\<forall>carrera asp g.
       g \<in> set (gruposIniciales gs t) \<and> puedeAcceder carrera g \<and>
       (\<forall>g'\<in>set (gruposIniciales gs t). g' < g \<longrightarrow> \<not> puedeAcceder carrera g') \<longrightarrow>
       recorrerGrupos carrera asp (gruposIniciales gs t) = asignarCupo carrera asp g) \<and>
   (\<forall>carrera asp.
       (\<forall>g\<in>set (gruposIniciales gs t). \<not> puedeAcceder carrera g) \<longrightarrow>
       recorrerGrupos carrera asp (gruposIniciales gs t) = (carrera, asp))"
proof -
  let ?gs = "gruposIniciales gs t"
  have s: "sorted ?gs" by (simp add: gruposIniciales_def)
  have m: "7 \<in> set ?gs" by (simp add: gruposIniciales_def)
  have ti: "t \<longrightarrow> ?gs = [7]" by (simp add: gruposIniciales_def)
  have ms: "mset ?gs = (if t then {#7#} else add_mset 7 (mset gs))"
    by (simp add: gruposIniciales_def)
  have d: "distinct ?gs \<longleftrightarrow> t \<or> (distinct gs \<and> 7 \<notin> set gs)"
    by (auto simp: gruposIniciales_def)
  have l: "last ?gs = 7 \<longleftrightarrow> t \<or> (\<forall>g\<in>set gs. g \<le> 7)"
    using last_ordenada [OF s m] by (auto simp: gruposIniciales_def)
  have f: "recorrerGrupos carrera asp ?gs = asignarCupo carrera asp g"
    if "g \<in> set ?gs" "puedeAcceder carrera g"
       "\<forall>g'\<in>set ?gs. g' < g \<longrightarrow> \<not> puedeAcceder carrera g'" for carrera asp g
    using find_menor [OF s that] by (simp add: recorrerGrupos_find)
  have nf: "recorrerGrupos carrera asp ?gs = (carrera, asp)"
    if "\<forall>g\<in>set ?gs. \<not> puedeAcceder carrera g" for carrera asp
    using that by (simp add: recorrerGrupos_find find_ninguno)
  have c: "grupos (nuevoAspirante i n p c gs t) = ?gs" by (simp add: nuevoAspirante_def)
  from c s m ti ms d l f nf show ?thesis by blast
qed

theorem grupos_del_constructor_witness:
  "gruposIniciales [3] False = [3, 7] \<and> distinct (gruposIniciales [3] False) \<and>
   last (gruposIniciales [3] False) = 7 \<and>
   puedeAcceder \<lparr>nombreCarrera = ''MEDICINA'', minPuntaje = 90, segmentos = [(3, 3), (7, 7)]\<rparr> 3 \<and>
   recorrerGrupos \<lparr>nombreCarrera = ''MEDICINA'', minPuntaje = 90, segmentos = [(3, 3), (7, 7)]\<rparr>
       (almacenEjemplo 0) (gruposIniciales [3] False)
     = asignarCupo \<lparr>nombreCarrera = ''MEDICINA'', minPuntaje = 90, segmentos = [(3, 3), (7, 7)]\<rparr>
         (almacenEjemplo 0) 3"
  using grupos_del_constructor [of 1 "''Ana Garcia''" 98 "''MEDICINA''" "[3]" False]
  by (simp add: gruposIniciales_def puedeAcceder_def disponibles_def)

text \<open>
  Claim C8 as stated fails: the given code 7 yields the list [7, 7], which repeats a code,
  and the given code 9 yields [7, 9], where 7 is not the last code.
\<close>

theorem grupos_repetidos:
  "grupos (nuevoAspirante 21 ''X'' 95 ''MEDICINA'' [7] False) = [7, 7] \<and>
   \<not> distinct (grupos (nuevoAspirante 21 ''X'' 95 ''MEDICINA'' [7] False)) \<and>
   grupos (nuevoAspirante 21 ''X'' 95 ''MEDICINA'' [9] False) = [7, 9] \<and>
   last (grupos (nuevoAspirante 21 ''X'' 95 ''MEDICINA'' [9] False)) \<noteq> 7"
  by (simp add: nuevoAspirante_def gruposIniciales_def)

section \<open>The ranking of the batch\<close>

lemma sorted_wrt_ordenados:
  "sorted_wrt (\<lambda>a b. puntaje (h b) \<le> puntaje (h a)) (ordenados h rs)"
proof -
  have "sorted (map (\<lambda>r. - puntaje (h r)) (ordenados h rs))"
    unfolding ordenados_def by (rule sorted_sort_key)
  then show ?thesis by (simp add: sorted_map)
qed

lemma subseq_par_filter:
  assumes "subseq [a, b] xs" and "P a" and "P b"
  shows "subseq [a, b] (filter P xs)"
proof -
  have "subseq (filter P [a, b]) (filter P xs)" using assms(1) by (rule subseq_filter)
  then show ?thesis using assms(2,3) by simp
qed

text \<open>
  Claim C4. The batch processes the candidates in the order of \<open>ordenados\<close>, which is a
  rearrangement of the input in non-increasing score order that keeps, for every score, the
  candidates of that score in their input order; so of two candidates with equal scores the
  one that comes first in the input is processed first.
\<close>

theorem ranking_estable:
  "ejecutarAsignacionAutomatica st rs = foldl procesar st (ordenados (almacen st) rs) \<and>
   mset (ordenados h rs) = mset rs \<and>
   sorted_wrt (\<lambda>a b. puntaje (h b) \<le> puntaje (h a)) (ordenados h rs) \<and>
   (\<forall>p. filter (\<lambda>r. puntaje (h r) = p) (ordenados h rs) = filter (\<lambda>r. puntaje (h r) = p) rs) \<and>
   (subseq [a, b] rs \<and> puntaje (h a) = puntaje (h b) \<longrightarrow> subseq [a, b] (ordenados h rs))"
proof -
  have st: "filter (\<lambda>r. puntaje (h r) = p) (ordenados h rs) = filter (\<lambda>r. puntaje (h r) = p) rs"
    for p
    using sort_key_stable [of "\<lambda>r. - puntaje (h r)" "- p" rs] by (simp add: ordenados_def)
  have par: "subseq [a, b] (ordenados h rs)"
    if ab: "subseq [a, b] rs" and eq: "puntaje (h a) = puntaje (h b)"
  proof -
    let ?P = "\<lambda>r. puntaje (h r) = puntaje (h b)"
    have "subseq [a, b] (filter ?P rs)" using ab eq by (intro subseq_par_filter) simp_all
    then have "subseq [a, b] (filter ?P (ordenados h rs))" by (simp add: st)
    moreover have "subseq (filter ?P (ordenados h rs)) (ordenados h rs)" by simp
    ultimately show ?thesis by (rule subseq_order.order_trans)
  qed
  show ?thesis
    using st par by (simp add: ejecutarAsignacionAutomatica_def ordenados_def sorted_wrt_ordenados [unfolded ordenados_def])
qed

lemma ordenados_empate: "ordenados almacenEmpate [0, Suc 0, 2, 3, 4] = [4, 0, Suc 0, 2, 3]"
  by code_simp

lemma etiquetas_empate: "map (\<lambda>r. grupoAsignadoFinal (almacen (ejecutarAsignacionAutomatica (nuevoServicio almacenEmpate [0, Suc 0, 2, 3, 4]) [0, Suc 0, 2, 3, 4]) r)) [0, Suc 0, 2, 3, 4]
  = [Some ''Segmento-3'', Some ''Segmento-3'', Some ''Segmento-3'', Some ''Segmento-7'', Some ''Segmento-7'']"
  by code_simp

theorem ranking_estable_witness:
  "subseq [2, 3] [0, Suc 0, 2, 3, 4] \<and> puntaje (almacenEmpate 2) = puntaje (almacenEmpate 3) \<and>
   subseq [2, 3] (ordenados almacenEmpate [0, Suc 0, 2, 3, 4]) \<and>
   ordenados almacenEmpate [0, Suc 0, 2, 3, 4] = [4, 0, Suc 0, 2, 3] \<and>
   map (\<lambda>r. grupoAsignadoFinal (almacen (ejecutarAsignacionAutomatica
          (nuevoServicio almacenEmpate [0, Suc 0, 2, 3, 4]) [0, Suc 0, 2, 3, 4]) r))
       [0, Suc 0, 2, 3, 4]
     = [Some ''Segmento-3'', Some ''Segmento-3'', Some ''Segmento-3'', Some ''Segmento-7'',
        Some ''Segmento-7'']"
proof -
  have s: "subseq [2, 3] [0, Suc 0, 2, 3, 4::nat]" by simp
  have p: "puntaje (almacenEmpate 2) = puntaje (almacenEmpate 3)"
    by (simp add: almacenEmpate_def nuevoAspirante_def)
  show ?thesis
    using s p ordenados_empate etiquetas_empate
      ranking_estable [of "nuevoServicio almacenEmpate [0, Suc 0, 2, 3, 4]"
        "[0, Suc 0, 2, 3, 4]" almacenEmpate 2 3]
    by blast
qed

section \<open>One step of the batch\<close>

lemma procesar_rechazo:
  "rechazoDirecto (carreras st) (almacen st r) \<Longrightarrow>
   procesar st r = st\<lparr> almacen := (almacen st)(r := (almacen st r)\<lparr> estadoCupo := RECHAZADO \<rparr>) \<rparr>"
  by (auto simp: procesar_def rechazoDirecto_def Let_def split: option.splits)

lemma procesar_sin_cupo:
  assumes "map_of (carreras st) (toUpperCase (carreraDeseada (almacen st r))) = Some c"
    and "\<not> puntaje (almacen st r) < minPuntaje c"
    and "List.find (puedeAcceder c) (grupos (almacen st r)) = None"
  shows "procesar st r =
     st\<lparr> almacen := (almacen st)
            (r := if estadoCupo (almacen st r) = PENDIENTE
                  then (almacen st r)\<lparr> estadoCupo := RECHAZADO \<rparr> else almacen st r) \<rparr>"
  using assms by (simp add: procesar_def Let_def recorrerGrupos_find AList.update_triv)

lemma procesar_con_cupo:
  assumes "map_of (carreras st) (toUpperCase (carreraDeseada (almacen st r))) = Some c"
    and "\<not> puntaje (almacen st r) < minPuntaje c"
    and "List.find (puedeAcceder c) (grupos (almacen st r)) = Some g"
  shows "procesar st r =
     st\<lparr> almacen := (almacen st)(r := snd (asignarCupo c (almacen st r) g)),
         carreras := AList.update (toUpperCase (carreraDeseada (almacen st r)))
                       (fst (asignarCupo c (almacen st r) g)) (carreras st) \<rparr>"
  using assms
  by (simp add: procesar_def Let_def recorrerGrupos_find asignarCupo_def split: prod.splits)

lemma almacen_procesar_otro: "x \<noteq> r \<Longrightarrow> almacen (procesar st r) x = almacen st x"
  by (simp add: procesar_def Let_def split: option.splits prod.splits)

lemma procesar_casos:
  obtains (rechazo) "rechazoDirecto (carreras st) (almacen st r)"
    | (sin_cupo) c where
        "map_of (carreras st) (toUpperCase (carreraDeseada (almacen st r))) = Some c"
        "\<not> puntaje (almacen st r) < minPuntaje c"
        "List.find (puedeAcceder c) (grupos (almacen st r)) = None"
    | (con_cupo) c g where
        "map_of (carreras st) (toUpperCase (carreraDeseada (almacen st r))) = Some c"
        "\<not> puntaje (almacen st r) < minPuntaje c"
        "List.find (puedeAcceder c) (grupos (almacen st r)) = Some g"
  by (cases "map_of (carreras st) (toUpperCase (carreraDeseada (almacen st r)))";
      cases "List.find (puedeAcceder (the (map_of (carreras st)
               (toUpperCase (carreraDeseada (almacen st r)))))) (grupos (almacen st r))")
     (auto simp: rechazoDirecto_def)

lemma datos_procesar:
  "puntaje (almacen (procesar st r) x) = puntaje (almacen st x) \<and>
   carreraDeseada (almacen (procesar st r) x) = carreraDeseada (almacen st x) \<and>
   grupos (almacen (procesar st r) x) = grupos (almacen st x) \<and>
   ident (almacen (procesar st r) x) = ident (almacen st x) \<and>
   nombre (almacen (procesar st r) x) = nombre (almacen st x)"
proof (cases "x = r")
  case False
  then show ?thesis by (simp add: almacen_procesar_otro)
next
  case True
  show ?thesis
  proof (cases rule: procesar_casos [of st r])
    case rechazo
    then show ?thesis using True by (simp add: procesar_rechazo)
  next
    case (sin_cupo c)
    then show ?thesis using True by (simp add: procesar_sin_cupo)
  next
    case (con_cupo c g)
    then show ?thesis using True by (simp add: procesar_con_cupo asignarCupo_def)
  qed
qed

lemma minimos_procesar:
  "map_option minPuntaje (map_of (carreras (procesar st r)) k) =
   map_option minPuntaje (map_of (carreras st) k)"
proof (cases rule: procesar_casos [of st r])
  case rechazo
  then show ?thesis by (simp add: procesar_rechazo)
next
  case (sin_cupo c)
  then show ?thesis by (simp add: procesar_sin_cupo)
next
  case (con_cupo c g)
  then show ?thesis
    by (simp add: procesar_con_cupo asignarCupo_def AList.update_conv')
qed

lemma rechazoDirecto_minimos:
  "rechazoDirecto cs a =
     (case map_option minPuntaje (map_of cs (toUpperCase (carreraDeseada a))) of
        None \<Rightarrow> True | Some m \<Rightarrow> puntaje a < m)"
  by (simp add: rechazoDirecto_def split: option.splits)

lemma rechazoDirecto_procesar:
  "rechazoDirecto (carreras (procesar st r)) (almacen (procesar st r) x) =
   rechazoDirecto (carreras st) (almacen st x)"
  by (simp add: rechazoDirecto_minimos minimos_procesar datos_procesar split: option.splits)

lemma foldl_rechazo:
  "rechazoDirecto (carreras st) (almacen st r) \<Longrightarrow>
   r \<in> set xs \<or> estadoCupo (almacen st r) = RECHAZADO \<Longrightarrow>
   estadoCupo (almacen (foldl procesar st xs) r) = RECHAZADO"
proof (induction xs arbitrary: st)
  case Nil
  then show ?case by simp
next
  case (Cons y ys)
  have rd: "rechazoDirecto (carreras (procesar st y)) (almacen (procesar st y) r)"
    using Cons.prems(1) by (simp add: rechazoDirecto_procesar)
  have "r \<in> set ys \<or> estadoCupo (almacen (procesar st y) r) = RECHAZADO"
  proof (cases "y = r")
    case True
    then show ?thesis using Cons.prems(1) by (simp add: procesar_rechazo)
  next
    case False
    then show ?thesis using Cons.prems(2) by (auto simp: almacen_procesar_otro)
  qed
  with rd show ?case by (simp add: Cons.IH)
qed

lemma foldl_no_aceptado:
  "rechazoDirecto (carreras st) (almacen st r) \<Longrightarrow>
   estadoCupo (almacen st r) \<noteq> ACEPTADO \<Longrightarrow>
   estadoCupo (almacen (foldl procesar st xs) r) \<noteq> ACEPTADO"
proof (induction xs arbitrary: st)
  case Nil
  then show ?case by simp
next
  case (Cons y ys)
  have rd: "rechazoDirecto (carreras (procesar st y)) (almacen (procesar st y) r)"
    using Cons.prems(1) by (simp add: rechazoDirecto_procesar)
  have "estadoCupo (almacen (procesar st y) r) \<noteq> ACEPTADO"
  proof (cases "y = r")
    case True
    then show ?thesis using Cons.prems(1) by (simp add: procesar_rechazo)
  next
    case False
    then show ?thesis using Cons.prems(2) by (simp add: almacen_procesar_otro)
  qed
  with rd show ?case by (simp add: Cons.IH)
qed

lemma procesar_local:
  assumes "carreras A = carreras B" and "almacen A r = almacen B r"
  shows "carreras (procesar A r) = carreras (procesar B r) \<and>
         almacen (procesar A r) r = almacen (procesar B r) r"
  using assms by (simp add: procesar_def Let_def split: option.splits prod.splits)

lemma foldl_filtrado:
  assumes "\<forall>x. Q x = (\<not> rechazoDirecto (carreras A) (almacen A x))"
    and "carreras A = carreras B"
    and "\<forall>x. Q x \<longrightarrow> almacen A x = almacen B x"
  shows "carreras (foldl procesar A xs) = carreras (foldl procesar B (filter Q xs))"
  using assms
proof (induction xs arbitrary: A B)
  case Nil
  then show ?case by simp
next
  case (Cons y ys)
  have q: "\<forall>x. Q x = (\<not> rechazoDirecto (carreras (procesar A y)) (almacen (procesar A y) x))"
    using Cons.prems(1) by (simp add: rechazoDirecto_procesar)
  show ?case
  proof (cases "Q y")
    case True
    with Cons.prems have ay: "almacen A y = almacen B y" by simp
    have c: "carreras (procesar A y) = carreras (procesar B y)"
      using procesar_local [OF Cons.prems(2) ay] by simp
    have a: "\<forall>x. Q x \<longrightarrow> almacen (procesar A y) x = almacen (procesar B y) x"
    proof (intro allI impI)
      fix x assume "Q x"
      show "almacen (procesar A y) x = almacen (procesar B y) x"
      proof (cases "x = y")
        case True
        then show ?thesis using procesar_local [OF Cons.prems(2) ay] by simp
      next
        case False
        then show ?thesis using Cons.prems(3) \<open>Q x\<close> by (simp add: almacen_procesar_otro)
      qed
    qed
    show ?thesis using True Cons.IH [OF q c a] by simp
  next
    case False
    with Cons.prems(1) have rd: "rechazoDirecto (carreras A) (almacen A y)" by simp
    have c: "carreras (procesar A y) = carreras B"
      using rd Cons.prems(2) by (simp add: procesar_rechazo)
    have a: "\<forall>x. Q x \<longrightarrow> almacen (procesar A y) x = almacen B x"
    proof (intro allI impI)
      fix x assume "Q x"
      with False have "x \<noteq> y" by auto
      then show "almacen (procesar A y) x = almacen B x"
        using Cons.prems(3) \<open>Q x\<close> by (simp add: almacen_procesar_otro)
    qed
    show ?thesis using False Cons.IH [OF q c a] by simp
  qed
qed

section \<open>Candidates rejected at once\<close>

text \<open>
  Claim C3. A candidate whose desired program is not in the catalog under its upper-case
  name, or whose score is below the program's minimum, is set to RECHAZADO by its step,
  which leaves the catalog as it is; after the batch every such candidate of the input is
  RECHAZADO, and the catalog is the one the batch produces without those candidates. A
  candidate that the batch turns into ACEPTADO has an existing desired program whose
  minimum score is at most the candidate's score.
\<close>

theorem rechazo_directo_sin_consumo:
  "(rechazoDirecto (carreras st) (almacen st r) \<longrightarrow>
      estadoCupo (almacen (procesar st r) r) = RECHAZADO \<and>
      carreras (procesar st r) = carreras st) \<and>
   (r \<in> set rs \<and> rechazoDirecto (carreras st) (almacen st r) \<longrightarrow>
      estadoCupo (almacen (ejecutarAsignacionAutomatica st rs) r) = RECHAZADO) \<and>
   carreras (ejecutarAsignacionAutomatica st rs) =
     carreras (ejecutarAsignacionAutomatica st
       (filter (\<lambda>x. \<not> rechazoDirecto (carreras st) (almacen st x)) rs)) \<and>
   (estadoCupo (almacen st r) \<noteq> ACEPTADO \<and>
    estadoCupo (almacen (ejecutarAsignacionAutomatica st rs) r) = ACEPTADO \<longrightarrow>
      (\<exists>carrera. map_of (carreras st) (toUpperCase (carreraDeseada (almacen st r))) = Some carrera \<and>
                 minPuntaje carrera \<le> puntaje (almacen st r)))"
proof (intro conjI impI)
  assume "rechazoDirecto (carreras st) (almacen st r)"
  then show "estadoCupo (almacen (procesar st r) r) = RECHAZADO"
    and "carreras (procesar st r) = carreras st"
    by (simp_all add: procesar_rechazo)
next
  assume "r \<in> set rs \<and> rechazoDirecto (carreras st) (almacen st r)"
  then show "estadoCupo (almacen (ejecutarAsignacionAutomatica st rs) r) = RECHAZADO"
    unfolding ejecutarAsignacionAutomatica_def
    by (intro foldl_rechazo) (simp_all add: ordenados_def)
next
  let ?Q = "\<lambda>x. \<not> rechazoDirecto (carreras st) (almacen st x)"
  have "carreras (foldl procesar st (ordenados (almacen st) rs)) =
        carreras (foldl procesar st (filter ?Q (ordenados (almacen st) rs)))"
    by (rule foldl_filtrado) simp_all
  then show "carreras (ejecutarAsignacionAutomatica st rs) =
     carreras (ejecutarAsignacionAutomatica st (filter ?Q rs))"
    by (simp add: ejecutarAsignacionAutomatica_def ordenados_def filter_sort)
next
  assume a: "estadoCupo (almacen st r) \<noteq> ACEPTADO \<and>
    estadoCupo (almacen (ejecutarAsignacionAutomatica st rs) r) = ACEPTADO"
  have "\<not> rechazoDirecto (carreras st) (almacen st r)"
  proof
    assume "rechazoDirecto (carreras st) (almacen st r)"
    then have "estadoCupo (almacen (foldl procesar st (ordenados (almacen st) rs)) r) \<noteq> ACEPTADO"
      using a by (intro foldl_no_aceptado) simp_all
    with a show False by (simp add: ejecutarAsignacionAutomatica_def)
  qed
  then show "\<exists>carrera. map_of (carreras st) (toUpperCase (carreraDeseada (almacen st r))) = Some carrera \<and>
                 minPuntaje carrera \<le> puntaje (almacen st r)"
    by (auto simp: rechazoDirecto_def split: option.splits)
qed

theorem rechazo_directo_sin_consumo_witness:
  "rechazoDirecto (carreras sistemaEjemplo) (almacen sistemaEjemplo 2) \<and>
   carreras (procesar sistemaEjemplo 2) = carreras sistemaEjemplo \<and>
   estadoCupo (almacen (ejecutarAsignacionAutomatica sistemaEjemplo [0, Suc 0, 2]) 2) = RECHAZADO \<and>
   estadoCupo (almacen sistemaEjemplo 0) = PENDIENTE \<and>
   estadoCupo (almacen (ejecutarAsignacionAutomatica sistemaEjemplo [0, Suc 0, 2]) 0) = ACEPTADO \<and>
   (\<exists>carrera. map_of (carreras sistemaEjemplo)
        (toUpperCase (carreraDeseada (almacen sistemaEjemplo 0))) = Some carrera \<and>
      minPuntaje carrera \<le> puntaje (almacen sistemaEjemplo 0))"
proof -
  have h1: "rechazoDirecto (carreras sistemaEjemplo) (almacen sistemaEjemplo 2)"
    by code_simp
  have h2: "estadoCupo (almacen sistemaEjemplo 0) = PENDIENTE"
    by code_simp
  have h3: "estadoCupo (almacen (ejecutarAsignacionAutomatica sistemaEjemplo [0, Suc 0, 2]) 0)
      = ACEPTADO"
    by code_simp
  show ?thesis
    using h1 h2 h3
      rechazo_directo_sin_consumo [of sistemaEjemplo 2 "[0, Suc 0, 2]"]
      rechazo_directo_sin_consumo [of sistemaEjemplo 0 "[0, Suc 0, 2]"]
    by simp
qed

section \<open>Only merit and general seats\<close>

lemma claves_con_cupo:
  assumes "list_all (\<lambda>(g, v). g = 3 \<or> g = 7) (segmentos c)" and "puedeAcceder c g"
  shows "g = 3 \<or> g = 7"
proof -
  from assms(2) obtain v where "map_of (segmentos c) g = Some v"
    by (auto simp: puedeAcceder_def disponibles_def split: option.splits)
  then have "(g, v) \<in> set (segmentos c)" by (rule map_of_SomeD)
  with assms(1) show ?thesis by (auto simp: list_all_iff)
qed

lemma soloMeritoYGeneral_elem:
  "soloMeritoYGeneral cs \<Longrightarrow> (k, c) \<in> set cs \<Longrightarrow>
   list_all (\<lambda>(g, v). g = 3 \<or> g = 7) (segmentos c)"
  by (auto simp: soloMeritoYGeneral_def list_all_iff)

lemma soloMeritoYGeneral_procesar:
  assumes "soloMeritoYGeneral (carreras st)"
  shows "soloMeritoYGeneral (carreras (procesar st r))"
proof (cases rule: procesar_casos [of st r])
  case rechazo
  then show ?thesis using assms by (simp add: procesar_rechazo)
next
  case (sin_cupo c)
  then show ?thesis using assms by (simp add: procesar_sin_cupo)
next
  case (con_cupo c g)
  let ?k = "toUpperCase (carreraDeseada (almacen st r))"
  from con_cupo(1) have "(?k, c) \<in> set (carreras st)" by (rule map_of_SomeD)
  with assms have sc: "list_all (\<lambda>(g, v). g = 3 \<or> g = 7) (segmentos c)"
    by (rule soloMeritoYGeneral_elem)
  from con_cupo(3) have "puedeAcceder c g" by (auto simp: find_Some_iff)
  with sc have g: "g = 3 \<or> g = 7" by (rule claves_con_cupo)
  have "list_all (\<lambda>(g, v). g = 3 \<or> g = 7)
          (AList.update g (disponibles c g - 1) (segmentos c))"
    using g sc by (intro list_all_update) simp_all
  then have "soloMeritoYGeneral (AList.update ?k (fst (asignarCupo c (almacen st r) g)) (carreras st))"
    using assms unfolding soloMeritoYGeneral_def
    by (intro list_all_update) (simp_all add: asignarCupo_def)
  then show ?thesis using con_cupo by (simp add: procesar_con_cupo)
qed

lemma soloMeritoYGeneral_ejecutar:
  assumes "soloMeritoYGeneral (carreras st)"
  shows "soloMeritoYGeneral (carreras (ejecutar st l))"
proof (cases l)
  case (Automatica rs)
  from assms have "soloMeritoYGeneral (carreras (foldl procesar st (ordenados (almacen st) rs)))"
    by (rule foldl_invariante [where P = "\<lambda>s. soloMeritoYGeneral (carreras s)"])
       (rule soloMeritoYGeneral_procesar)
  then show ?thesis using Automatica by (simp add: ejecutarAsignacionAutomatica_def)
next
  case (Manual i e)
  then show ?thesis using assms by (simp add: carreras_modificarManualmente)
qed

lemma soloMeritoYGeneral_configurar:
  "soloMeritoYGeneral cs \<Longrightarrow> soloMeritoYGeneral (configurarCarrera n cupos mn cs)"
  unfolding soloMeritoYGeneral_def configurarCarrera_def Let_def
  by (intro list_all_update) simp_all

lemma numToString_3: "numToString 3 = ''3''"
  by code_simp

lemma numToString_7: "numToString 7 = ''7''"
  by code_simp

lemma etiqueta_procesar:
  assumes "soloMeritoYGeneral (carreras st)"
  shows "(grupoAsignadoFinal (almacen (procesar st r) x) = grupoAsignadoFinal (almacen st x) \<and>
          (estadoCupo (almacen (procesar st r) x) = estadoCupo (almacen st x) \<or>
           estadoCupo (almacen (procesar st r) x) = RECHAZADO)) \<or>
         grupoAsignadoFinal (almacen (procesar st r) x) = Some ''Segmento-3'' \<or>
         grupoAsignadoFinal (almacen (procesar st r) x) = Some ''Segmento-7''"
proof (cases "x = r")
  case False
  then show ?thesis by (simp add: almacen_procesar_otro)
next
  case True
  show ?thesis
  proof (cases rule: procesar_casos [of st r])
    case rechazo
    then show ?thesis using True by (simp add: procesar_rechazo)
  next
    case (sin_cupo c)
    then show ?thesis using True by (simp add: procesar_sin_cupo)
  next
    case (con_cupo c g)
    from con_cupo(1) have "(toUpperCase (carreraDeseada (almacen st r)), c) \<in> set (carreras st)"
      by (rule map_of_SomeD)
    with assms have sc: "list_all (\<lambda>(g, v). g = 3 \<or> g = 7) (segmentos c)"
      by (rule soloMeritoYGeneral_elem)
    from con_cupo(3) have "puedeAcceder c g" by (auto simp: find_Some_iff)
    with sc have "g = 3 \<or> g = 7" by (rule claves_con_cupo)
    then show ?thesis using con_cupo True
      by (auto simp: procesar_con_cupo asignarCupo_def numToString_3 numToString_7)
  qed
qed

lemma foldl_etiqueta:
  assumes "soloMeritoYGeneral (carreras st)"
    and "(grupoAsignadoFinal (almacen st x) = l0 \<and>
          (estadoCupo (almacen st x) = ACEPTADO \<longrightarrow> e0 = ACEPTADO)) \<or>
         grupoAsignadoFinal (almacen st x) = Some ''Segmento-3'' \<or>
         grupoAsignadoFinal (almacen st x) = Some ''Segmento-7''"
  shows "(grupoAsignadoFinal (almacen (foldl procesar st xs) x) = l0 \<and>
          (estadoCupo (almacen (foldl procesar st xs) x) = ACEPTADO \<longrightarrow> e0 = ACEPTADO)) \<or>
         grupoAsignadoFinal (almacen (foldl procesar st xs) x) = Some ''Segmento-3'' \<or>
         grupoAsignadoFinal (almacen (foldl procesar st xs) x) = Some ''Segmento-7''"
  using assms
proof (induction xs arbitrary: st)
  case Nil
  then show ?case by simp
next
  case (Cons y ys)
  have s: "soloMeritoYGeneral (carreras (procesar st y))"
    using Cons.prems(1) by (rule soloMeritoYGeneral_procesar)
  have k: "(grupoAsignadoFinal (almacen (procesar st y) x) = l0 \<and>
          (estadoCupo (almacen (procesar st y) x) = ACEPTADO \<longrightarrow> e0 = ACEPTADO)) \<or>
         grupoAsignadoFinal (almacen (procesar st y) x) = Some ''Segmento-3'' \<or>
         grupoAsignadoFinal (almacen (procesar st y) x) = Some ''Segmento-7''"
    using etiqueta_procesar [OF Cons.prems(1), of y x] Cons.prems(2) by auto
  show ?case using Cons.IH [OF s k] by simp
qed

text \<open>
  Claim C10. The catalog of the constructor, and any catalog after further configuration,
  has no keys other than 3 and 7, and batches and manual changes keep it so. In such a
  catalog every other code has no capacity and is refused by \<^verbatim>\<open>puedeAcceder\<close>, a list
  of codes without 3 and 7 yields no seat, and a batch either leaves a candidate's label as
  it was or sets it to \<^verbatim>\<open>Segmento-3\<close> or \<^verbatim>\<open>Segmento-7\<close>; a candidate the batch turns
  into ACEPTADO carries one of these two labels.
\<close>

theorem solo_merito_y_general:
  "soloMeritoYGeneral carrerasIniciales \<and>
   (soloMeritoYGeneral cs \<longrightarrow> soloMeritoYGeneral (configurarCarrera n cupos mn cs)) \<and>
   (soloMeritoYGeneral (carreras st) \<longrightarrow>
      soloMeritoYGeneral (carreras (ejecutarLlamadas st ls)) \<and>
      (\<forall>k c g. (k, c) \<in> set (carreras st) \<and> g \<noteq> 3 \<and> g \<noteq> 7 \<longrightarrow>
          disponibles c g = 0 \<and> \<not> puedeAcceder c g) \<and>
      (\<forall>k c asp gs. (k, c) \<in> set (carreras st) \<and> 3 \<notin> set gs \<and> 7 \<notin> set gs \<longrightarrow>
          recorrerGrupos c asp gs = (c, asp)) \<and>
      (\<forall>r. grupoAsignadoFinal (almacen (ejecutarAsignacionAutomatica st rs) r)
              = grupoAsignadoFinal (almacen st r) \<or>
            grupoAsignadoFinal (almacen (ejecutarAsignacionAutomatica st rs) r)
              = Some ''Segmento-3'' \<or>
            grupoAsignadoFinal (almacen (ejecutarAsignacionAutomatica st rs) r)
              = Some ''Segmento-7'') \<and>
      (\<forall>r. estadoCupo (almacen st r) \<noteq> ACEPTADO \<and>
            estadoCupo (almacen (ejecutarAsignacionAutomatica st rs) r) = ACEPTADO \<longrightarrow>
            grupoAsignadoFinal (almacen (ejecutarAsignacionAutomatica st rs) r)
              = Some ''Segmento-3'' \<or>
            grupoAsignadoFinal (almacen (ejecutarAsignacionAutomatica st rs) r)
              = Some ''Segmento-7''))"
proof (intro conjI impI allI)
  show "soloMeritoYGeneral carrerasIniciales"
    by (simp add: carrerasIniciales_eq soloMeritoYGeneral_def)
next
  assume "soloMeritoYGeneral cs"
  then show "soloMeritoYGeneral (configurarCarrera n cupos mn cs)"
    by (rule soloMeritoYGeneral_configurar)
next
  assume "soloMeritoYGeneral (carreras st)"
  then show "soloMeritoYGeneral (carreras (ejecutarLlamadas st ls))"
    unfolding ejecutarLlamadas_def
    by (rule foldl_invariante [where P = "\<lambda>s. soloMeritoYGeneral (carreras s)"])
       (rule soloMeritoYGeneral_ejecutar)
next
  fix k c and g :: int
  assume s: "soloMeritoYGeneral (carreras st)"
    and a: "(k, c) \<in> set (carreras st) \<and> g \<noteq> 3 \<and> g \<noteq> 7"
  from s a have sc: "list_all (\<lambda>(g, v). g = 3 \<or> g = 7) (segmentos c)"
    by (auto intro: soloMeritoYGeneral_elem)
  have "map_of (segmentos c) g = None"
  proof (cases "map_of (segmentos c) g")
    case (Some v)
    then have "(g, v) \<in> set (segmentos c)" by (rule map_of_SomeD)
    with sc a show ?thesis by (auto simp: list_all_iff)
  qed simp
  then show "disponibles c g = 0" and "\<not> puedeAcceder c g"
    by (simp_all add: puedeAcceder_def disponibles_def)
next
  fix k c asp and gs :: "int list"
  assume s: "soloMeritoYGeneral (carreras st)"
    and a: "(k, c) \<in> set (carreras st) \<and> 3 \<notin> set gs \<and> 7 \<notin> set gs"
  from s a have sc: "list_all (\<lambda>(g, v). g = 3 \<or> g = 7) (segmentos c)"
    by (auto intro: soloMeritoYGeneral_elem)
  have "\<forall>g\<in>set gs. \<not> puedeAcceder c g"
    using claves_con_cupo [OF sc] a by blast
  then show "recorrerGrupos c asp gs = (c, asp)"
    by (simp add: recorrerGrupos_find find_ninguno)
next
  fix r
  assume s: "soloMeritoYGeneral (carreras st)"
  show "grupoAsignadoFinal (almacen (ejecutarAsignacionAutomatica st rs) r)
              = grupoAsignadoFinal (almacen st r) \<or>
            grupoAsignadoFinal (almacen (ejecutarAsignacionAutomatica st rs) r)
              = Some ''Segmento-3'' \<or>
            grupoAsignadoFinal (almacen (ejecutarAsignacionAutomatica st rs) r)
              = Some ''Segmento-7''"
    using foldl_etiqueta [OF s, of r "grupoAsignadoFinal (almacen st r)"
        "estadoCupo (almacen st r)" "ordenados (almacen st) rs"]
    by (auto simp: ejecutarAsignacionAutomatica_def)
next
  fix r
  assume s: "soloMeritoYGeneral (carreras st)"
    and a: "estadoCupo (almacen st r) \<noteq> ACEPTADO \<and>
            estadoCupo (almacen (ejecutarAsignacionAutomatica st rs) r) = ACEPTADO"
  show "grupoAsignadoFinal (almacen (ejecutarAsignacionAutomatica st rs) r)
              = Some ''Segmento-3'' \<or>
            grupoAsignadoFinal (almacen (ejecutarAsignacionAutomatica st rs) r)
              = Some ''Segmento-7''"
    using foldl_etiqueta [OF s, of r "grupoAsignadoFinal (almacen st r)"
        "estadoCupo (almacen st r)" "ordenados (almacen st) rs"] a
    by (auto simp: ejecutarAsignacionAutomatica_def)
qed

theorem solo_merito_y_general_witness:
  "soloMeritoYGeneral (carreras sistemaEjemplo) \<and>
   soloMeritoYGeneral (carreras (ejecutarLlamadas sistemaEjemplo
      [Automatica [0, Suc 0, 2], Manual 4 ACEPTADO])) \<and>
   grupos (almacen sistemaEjemplo (Suc 0)) = [1, 7] \<and>
   estadoCupo (almacen sistemaEjemplo (Suc 0)) = PENDIENTE \<and>
   estadoCupo (almacen (ejecutarAsignacionAutomatica sistemaEjemplo [0, Suc 0, 2]) (Suc 0))
     = ACEPTADO \<and>
   grupoAsignadoFinal (almacen (ejecutarAsignacionAutomatica sistemaEjemplo [0, Suc 0, 2]) (Suc 0))
     = Some ''Segmento-7''"
proof -
  have h1: "soloMeritoYGeneral (carreras sistemaEjemplo)"
    by (simp add: carreras_sistemaEjemplo carrerasIniciales_eq soloMeritoYGeneral_def)
  have h2: "grupos (almacen sistemaEjemplo (Suc 0)) = [1, 7]"
    by code_simp
  have h3: "estadoCupo (almacen sistemaEjemplo (Suc 0)) = PENDIENTE"
    by code_simp
  have h4: "estadoCupo (almacen (ejecutarAsignacionAutomatica sistemaEjemplo [0, Suc 0, 2]) (Suc 0))
     = ACEPTADO"
    by code_simp
  have h5: "grupoAsignadoFinal
      (almacen (ejecutarAsignacionAutomatica sistemaEjemplo [0, Suc 0, 2]) (Suc 0))
     = Some ''Segmento-7''"
    by code_simp
  show ?thesis
    using h1 h2 h3 h4 h5
      solo_merito_y_general [where st = sistemaEjemplo and rs = "[0, Suc 0, 2]"
        and ls = "[Automatica [0, Suc 0, 2], Manual 4 ACEPTADO]" and cs = "[]"
        and n = "''DERECHO''" and cupos = 90 and mn = None]
    by blast
qed

end
